theory Spec2Isabelle
  imports Complex_Main
begin

section \<open>JavaScript strings\<close>

text \<open>
  A string is a list of code units. The development represents the code units
  U+0000 .. U+00FF (Basic Latin and Latin-1 Supplement), one \<^typ>\<open>char\<close> each, and
  gives the built-in string operations their ECMAScript meaning on that range.
\<close>

definition isWhiteSpace :: "char \<Rightarrow> bool" where
  \<comment> \<open>what the regular expression class \<open>\s\<close> and \<open>String.prototype.trim\<close> remove:
      TAB, LF, VT, FF, CR, SPACE and NO-BREAK SPACE\<close>
  "isWhiteSpace c =
     (let n = (of_char c :: nat) in (9 \<le> n \<and> n \<le> 13) \<or> n = 32 \<or> n = 160)"

definition toLowerChar :: "char \<Rightarrow> char" where
  \<comment> \<open>A-Z, and the capital letters U+00C0 .. U+00DE other than the multiplication sign
      U+00D7, have their lowercase form 32 code points further on\<close>
  "toLowerChar c =
     (let n = (of_char c :: nat)
      in if (65 \<le> n \<and> n \<le> 90) \<or> (192 \<le> n \<and> n \<le> 222 \<and> n \<noteq> 215)
         then char_of (n + 32) else c)"

definition toLowerCase :: "string \<Rightarrow> string" where
  "toLowerCase s = map toLowerChar s"

definition trim :: "string \<Rightarrow> string" where
  "trim s = rev (dropWhile isWhiteSpace (rev (dropWhile isWhiteSpace s)))"

fun startsWith :: "string \<Rightarrow> string \<Rightarrow> bool" where
  "startsWith s [] = True"
| "startsWith [] (y # ys) = False"
| "startsWith (x # xs) (y # ys) = (x = y \<and> startsWith xs ys)"

fun js_includes :: "string \<Rightarrow> string \<Rightarrow> bool" where
  \<comment> \<open>\<open>s.includes(t)\<close>: \<open>t\<close> occurs in \<open>s\<close> at some position\<close>
  "js_includes [] t = (t = [])"
| "js_includes (x # xs) t = (startsWith (x # xs) t \<or> js_includes xs t)"

definition replace_whitespace :: "string \<Rightarrow> string" where
  \<comment> \<open>\<open>s.replace(/\s+/g, "")\<close>: every maximal run of white space is replaced by the
      empty string, so exactly the white-space code units disappear\<close>
  "replace_whitespace s = filter (\<lambda>c. \<not> isWhiteSpace c) s"

section \<open>The sound list component (SoundList.jsx)\<close>

text \<open>
  An entry of the list, with the fields the effect on \<open>soundsData\<close> gives it. The field
  \<open>id\<close> of the source is \<open>sid\<close> here. A duration that is missing is \<open>None\<close>.
\<close>

record sound =
  sid :: string
  name :: string
  description :: string
  category :: string
  isPremium :: bool
  link :: string
  duration :: "string option"
  selected :: bool
  isPlaying :: bool

text \<open>A sound as the backend sends it (\<open>_id\<close> is \<open>api_id\<close> here).\<close>

record api_sound =
  api_id :: string
  title :: string
  api_description :: string
  api_category :: string
  api_isPremium :: bool
  api_link :: string

definition formatSound :: "api_sound \<Rightarrow> sound" where
  \<comment> \<open>the mapping of the effect on \<open>soundsData\<close>\<close>
  "formatSound s =
     \<lparr>sid = api_id s, name = title s, description = api_description s,
      category = api_category s, isPremium = api_isPremium s, link = api_link s,
      duration = Some ''00:00'', selected = False, isPlaying = False\<rparr>"

text \<open>The component's \<open>useState\<close> cells.\<close>

record sound_list_state =
  sounds :: "sound list"
  filteredSounds :: "sound list"
  searchTerm :: string
  isLoading :: bool
  currentlyPlayingId :: "string option"
  selectedSounds :: "string list"
  isAddModalOpen :: bool
  isDeleteModalOpen :: bool
  currentPage :: int
  totalPages :: int
  isShareModalOpen :: bool
  shareData :: "(string \<times> string \<times> string) option"

definition handlePageChange :: "int \<Rightarrow> sound_list_state \<Rightarrow> sound_list_state" where
  "handlePageChange page st = st\<lparr>currentPage := page\<rparr>"

definition applySearch :: "string \<Rightarrow> sound list \<Rightarrow> sound_list_state \<Rightarrow> sound_list_state" where
  \<comment> \<open>\<open>!term || !term.trim()\<close>: the term is the empty string, or trims to it\<close>
  "applySearch term soundList st =
     (if term = [] \<or> trim term = [] then st\<lparr>filteredSounds := soundList\<rparr>
      else st\<lparr>filteredSounds :=
             filter (\<lambda>sound. js_includes (toLowerCase (name sound)) (toLowerCase term))
               soundList\<rparr>)"





section \<open>The sign-up page (SignUp.jsx, in its two versions)\<close>

text \<open>
  The values of the form. The three fields of the simplified version are the common
  part; the version with name and phone number extends it. The check box is a value
  (numbers are integers here) that the schema compares with the literal \<open>true\<close>.
\<close>

datatype js_value = JUndefined | JBool bool | JNumber int | JString string

record signup_values =
  email :: string
  password :: string
  agreeToTerms :: js_value

record signup_values_full = signup_values +
  fullName :: string
  phone :: string

text \<open>
  A schema returns the issues it found, each with the field it belongs to, its code and
  its message, in the order of the schema's keys and checks, or else the parsed value.
  An object schema reports the issues of all its keys; a string schema evaluates all its
  checks; a refinement also runs after a failed check of the string below it; a
  transform runs only when nothing failed. The email check and the phone-number check
  belong to the libraries and are parameters here.
\<close>

type_synonym issue = "string \<times> string \<times> string"

definition signUpSchema :: "(string \<Rightarrow> bool) \<Rightarrow> (string \<Rightarrow> bool) \<Rightarrow> signup_values_full
    \<Rightarrow> issue list + signup_values_full" where
  \<comment> \<open>SignUp.jsx: the schema "aligned with backend"\<close>
  "signUpSchema isValidPhoneNumber isEmail v =
     (let issues =
            (if length (fullName v) < 2 then [(''fullName'', ''too_small'', ''Name is required'')] else [])
            @ (if length (phone v) < 1
               then [(''phone'', ''too_small'', ''Phone number is required'')] else [])
            @ (if isValidPhoneNumber (phone v) then []
               else [(''phone'', ''custom'', ''Please enter a valid phone number with country code'')])
            @ (if isEmail (email v) then []
               else [(''email'', ''invalid_string'', ''Invalid email address'')])
            @ (if length (password v) < 6
               then [(''password'', ''too_small'', ''Password must be at least 6 characters'')]
               else [])
            @ (if agreeToTerms v = JBool True then []
               else [(''agreeToTerms'', ''invalid_literal'', ''You must agree to the terms'')])
      in if issues = [] then Inr v else Inl issues)"

definition normalizeEmail :: "string \<Rightarrow> string" where
  \<comment> \<open>\<open>val.replace(/\s+/g, "").toLowerCase()\<close>\<close>
  "normalizeEmail val = toLowerCase (replace_whitespace val)"

definition signUpSchema_simplified :: "(string \<Rightarrow> bool) \<Rightarrow> signup_values
    \<Rightarrow> issue list + signup_values" where
  \<comment> \<open>the other version: "only email, password, and terms"\<close>
  "signUpSchema_simplified isEmail v =
     (let issues =
            (if isEmail (email v) then []
             else [(''email'', ''invalid_string'', ''Invalid email address'')])
            @ (if length (password v) < 6
               then [(''password'', ''too_small'', ''Password must be at least 6 characters'')]
               else [])
            @ (if agreeToTerms v = JBool True then []
               else [(''agreeToTerms'', ''invalid_literal'', ''You must agree to the terms'')])
      in if issues = [] then Inr (v\<lparr>email := normalizeEmail (email v)\<rparr>) else Inl issues)"

text \<open>
  The errors of the form: per field, the type and the message. The resolver keeps the
  first issue of each field.
\<close>

type_synonym form_errors = "string \<rightharpoonup> (string \<times> string)"

definition zodResolver :: "issue list \<Rightarrow> form_errors" where
  "zodResolver issues = map_of issues"

definition setError :: "string \<Rightarrow> string \<times> string \<Rightarrow> form_errors \<Rightarrow> form_errors" where
  "setError field e errs = errs(field \<mapsto> e)"

text \<open>
  What \<open>signUp\<close> of the authentication context does is not part of the page: it
  resolves, or rejects with an error whose \<open>response?.data?.errors\<close> is missing
  (\<open>None\<close>) or a list of backend errors. A backend error may have a path, which is a
  string or an array of strings, and a message.
\<close>

datatype err_path = PathString string | PathArray "string list"

record backend_error =
  path :: "err_path option"
  message :: "string option"

datatype signup_outcome = Resolved | Rejected "backend_error list option"

definition path_includes :: "err_path option \<Rightarrow> string \<Rightarrow> bool" where
  \<comment> \<open>\<open>err.path && err.path.includes(field)\<close>: an absent path and the empty string are
      falsy; on a string \<open>includes\<close> searches a substring, on an array an element\<close>
  "path_includes p field =
     (case p of
        None \<Rightarrow> False
      | Some (PathString s) \<Rightarrow> s \<noteq> [] \<and> js_includes s field
      | Some (PathArray xs) \<Rightarrow> field \<in> set xs)"

definition message_or :: "string option \<Rightarrow> string \<Rightarrow> string" where
  \<comment> \<open>\<open>err.message || fallback\<close>\<close>
  "message_or m fallback = (case m of None \<Rightarrow> fallback | Some s \<Rightarrow> if s = [] then fallback else s)"

definition mapBackendError :: "backend_error \<Rightarrow> form_errors \<Rightarrow> form_errors" where
  \<comment> \<open>SignUp.jsx: the body of the \<open>forEach\<close>\<close>
  "mapBackendError err errs =
     (if path_includes (path err) ''phone''
      then setError ''phone'' (''manual'', message_or (message err) ''Invalid phone number format'') errs
      else errs)"

definition mapBackendError_simplified :: "backend_error \<Rightarrow> form_errors \<Rightarrow> form_errors" where
  \<comment> \<open>the other version: two tests, one after the other\<close>
  "mapBackendError_simplified err errs =
     (let errs1 =
            (if path_includes (path err) ''email''
             then setError ''email'' (''manual'', message_or (message err) ''Invalid email format'') errs
             else errs)
      in if path_includes (path err) ''password''
         then setError ''password''
                (''manual'', message_or (message err) ''Invalid password format'') errs1
         else errs1)"

record 'd submit_result =
  formErrors :: form_errors
  signUpCalls :: "'d list"

definition onSubmit :: "(signup_values_full \<Rightarrow> signup_outcome) \<Rightarrow> signup_values_full
    \<Rightarrow> form_errors \<Rightarrow> signup_values_full submit_result" where
  "onSubmit signUp data errs =
     (case signUp data of
        Resolved \<Rightarrow> \<lparr>formErrors = errs, signUpCalls = [data]\<rparr>
      | Rejected None \<Rightarrow> \<lparr>formErrors = errs, signUpCalls = [data]\<rparr>
      | Rejected (Some es) \<Rightarrow> \<lparr>formErrors = fold mapBackendError es errs, signUpCalls = [data]\<rparr>)"

definition onSubmit_simplified :: "(signup_values \<Rightarrow> signup_outcome) \<Rightarrow> signup_values
    \<Rightarrow> form_errors \<Rightarrow> signup_values submit_result" where
  "onSubmit_simplified signUp data errs =
     (let submitData = data\<lparr>email := normalizeEmail (email data)\<rparr>
      in case signUp submitData of
           Resolved \<Rightarrow> \<lparr>formErrors = errs, signUpCalls = [submitData]\<rparr>
         | Rejected None \<Rightarrow> \<lparr>formErrors = errs, signUpCalls = [submitData]\<rparr>
         | Rejected (Some es) \<Rightarrow>
             \<lparr>formErrors = fold mapBackendError_simplified es errs, signUpCalls = [submitData]\<rparr>)"

text \<open>
  \<open>handleSubmit(onSubmit)\<close> of the form library: the resolver's errors become the
  form's errors, and \<open>onSubmit\<close> runs, on the parsed value, only when there are none.
\<close>

definition handleSubmit :: "(string \<Rightarrow> bool) \<Rightarrow> (string \<Rightarrow> bool)
    \<Rightarrow> (signup_values_full \<Rightarrow> signup_outcome) \<Rightarrow> signup_values_full
    \<Rightarrow> signup_values_full submit_result" where
  "handleSubmit isValidPhoneNumber isEmail signUp v =
     (case signUpSchema isValidPhoneNumber isEmail v of
        Inl issues \<Rightarrow> \<lparr>formErrors = zodResolver issues, signUpCalls = []\<rparr>
      | Inr data \<Rightarrow> onSubmit signUp data Map.empty)"

definition handleSubmit_simplified :: "(string \<Rightarrow> bool)
    \<Rightarrow> (signup_values \<Rightarrow> signup_outcome) \<Rightarrow> signup_values \<Rightarrow> signup_values submit_result" where
  "handleSubmit_simplified isEmail signUp v =
     (case signUpSchema_simplified isEmail v of
        Inl issues \<Rightarrow> \<lparr>formErrors = zodResolver issues, signUpCalls = []\<rparr>
      | Inr data \<Rightarrow> onSubmit_simplified signUp data Map.empty)"

definition accepted :: "issue list + 'd \<Rightarrow> bool" where
  "accepted r = (case r of Inl issues \<Rightarrow> False | Inr d \<Rightarrow> True)"

text \<open>
  Stand-ins for the two library checks and for \<open>signUp\<close>, and form values, to run the
  page on: an email check that asks for an at sign and no white space, a phone check
  that asks for a leading plus sign, and a backend that rejects every sign-up with
  three errors.
\<close>

definition demo_isEmail :: "string \<Rightarrow> bool" where
  "demo_isEmail s = (CHR ''@'' \<in> set s \<and> \<not> list_ex isWhiteSpace s)"

definition demo_isValidPhoneNumber :: "string \<Rightarrow> bool" where
  "demo_isValidPhoneNumber s = startsWith s ''+''"

definition demo_backend_errors :: "backend_error list" where
  "demo_backend_errors =
     [\<lparr>path = Some (PathString ''body.email''), message = Some ''Email already exists''\<rparr>,
      \<lparr>path = Some (PathArray [''body'', ''phone'']), message = None\<rparr>,
      \<lparr>path = Some (PathString ''body.fullName''), message = Some ''Too short''\<rparr>]"

definition demo_signUp :: "'d \<Rightarrow> signup_outcome" where
  "demo_signUp d = Rejected (Some demo_backend_errors)"

definition demo_values :: signup_values where
  "demo_values = \<lparr>email = ''Ada@Example.org'', password = ''secret1'', agreeToTerms = JBool True\<rparr>"

definition demo_values_full :: signup_values_full where
  "demo_values_full =
     \<lparr>email = ''ada@example.org'', password = ''secret1'', agreeToTerms = JBool True,
      fullName = ''Ada'', phone = ''+4930123456''\<rparr>"

definition demo_signUp_other :: "'d \<Rightarrow> signup_outcome" where
  \<comment> \<open>a backend whose only error is about a field the page does not look for\<close>
  "demo_signUp_other d =
     Rejected (Some [\<lparr>path = Some (PathString ''body.fullName''), message = Some ''Too short''\<rparr>])"

definition demo_values_bad :: signup_values_full where
  \<comment> \<open>values that fail the email, the password and the terms check at once\<close>
  "demo_values_bad =
     \<lparr>email = ''ada.example.org'', password = ''12345'', agreeToTerms = JBool False,
      fullName = ''Ada'', phone = ''+4930123456''\<rparr>"

section \<open>Durations\<close>


fun digits :: "nat \<Rightarrow> string" where
  "digits n =
     (if n < 10 then [char_of (48 + n)] else digits (n div 10) @ [char_of (48 + n mod 10)])"

definition numberToString :: "int \<Rightarrow> string" where
  "numberToString n = (if n < 0 then CHR ''-'' # digits (nat (- n)) else digits (nat n))"





section \<open>The connection hooks (useConnections.js)\<close>

text \<open>
  The filters of a listing, each a value that may be undefined. A filter is appended
  when it is truthy: not undefined, not \<open>false\<close>, not 0 and not the empty string.
\<close>

record user_filters =
  search :: js_value
  page :: js_value
  limit :: js_value

definition truthy :: "js_value \<Rightarrow> bool" where
  "truthy v =
     (case v of JUndefined \<Rightarrow> False | JBool b \<Rightarrow> b | JNumber n \<Rightarrow> n \<noteq> 0 | JString s \<Rightarrow> s \<noteq> [])"

definition toString :: "js_value \<Rightarrow> string" where
  \<comment> \<open>the conversion \<open>URLSearchParams.append\<close> applies to its arguments\<close>
  "toString v =
     (case v of
        JUndefined \<Rightarrow> ''undefined''
      | JBool b \<Rightarrow> (if b then ''true'' else ''false'')
      | JNumber n \<Rightarrow> numberToString n
      | JString s \<Rightarrow> s)"

text \<open>
  \<open>URLSearchParams.toString()\<close>: names and values in the form-urlencoded format, the
  pairs joined by an ampersand. A code unit is written as its UTF-8 bytes; letters,
  digits and the four characters asterisk, hyphen, full stop and underscore stay, a
  space becomes a plus sign, every other byte a percent sign and two hexadecimal digits.
\<close>

definition utf8Bytes :: "char \<Rightarrow> nat list" where
  "utf8Bytes c =
     (let n = (of_char c :: nat) in if n < 128 then [n] else [192 + n div 64, 128 + n mod 64])"

definition hexDigit :: "nat \<Rightarrow> char" where
  "hexDigit n = (if n < 10 then char_of (48 + n) else char_of (55 + n))"

definition urlencodedByte :: "nat \<Rightarrow> string" where
  "urlencodedByte b =
     (if b = 32 then ''+''
      else if (48 \<le> b \<and> b \<le> 57) \<or> (65 \<le> b \<and> b \<le> 90) \<or> (97 \<le> b \<and> b \<le> 122)
              \<or> b = 42 \<or> b = 45 \<or> b = 46 \<or> b = 95
      then [char_of b]
      else [CHR ''%'', hexDigit (b div 16), hexDigit (b mod 16)])"

definition urlencode :: "string \<Rightarrow> string" where
  "urlencode s = concat (map (\<lambda>c. concat (map urlencodedByte (utf8Bytes c))) s)"

fun paramsToString :: "(string \<times> string) list \<Rightarrow> string" where
  "paramsToString [] = []"
| "paramsToString [(k, v)] = urlencode k @ ''='' @ urlencode v"
| "paramsToString ((k, v) # rest) = urlencode k @ ''='' @ urlencode v @ ''&'' @ paramsToString rest"

definition getAllUsers_params :: "user_filters \<Rightarrow> (string \<times> string) list" where
  \<comment> \<open>the three conditional \<open>params.append\<close> calls of \<open>useGetAllUsers\<close>\<close>
  "getAllUsers_params filters =
     (let params = [];
          params = (if truthy (search filters)
                    then params @ [(''search'', toString (search filters))] else params);
          params = (if truthy (page filters)
                    then params @ [(''page'', toString (page filters))] else params);
          params = (if truthy (limit filters)
                    then params @ [(''limit'', toString (limit filters))] else params)
      in params)"

definition getAllUsers_url :: "user_filters \<Rightarrow> string" where
  \<comment> \<open>the argument of \<open>apiClient.get\<close> in the query function of \<open>useGetAllUsers\<close>\<close>
  "getAllUsers_url filters =
     (let params = getAllUsers_params filters;
          query = (if paramsToString params \<noteq> [] then ''?'' @ paramsToString params else [])
      in ''/user/get-all-user'' @ query)"



section \<open>Downloading a sound (SoundList.jsx)\<close>




section \<open>Facts about the string operations\<close>

lemma startsWith_iff: "startsWith s t \<longleftrightarrow> (\<exists>b. s = t @ b)"
  by (induction s t rule: startsWith.induct) auto

lemma js_includes_iff: "js_includes s t \<longleftrightarrow> (\<exists>a b. s = a @ t @ b)"
proof (induction s)
  case Nil
  then show ?case by auto
next
  case (Cons x xs)
  show ?case
  proof
    assume "js_includes (x # xs) t"
    then consider "startsWith (x # xs) t" | "js_includes xs t" by auto
    then show "\<exists>a b. x # xs = a @ t @ b"
    proof cases
      case 1
      then obtain b where "x # xs = t @ b" by (auto simp: startsWith_iff)
      then have "x # xs = [] @ t @ b" by simp
      then show ?thesis by blast
    next
      case 2
      then obtain a b where "xs = a @ t @ b" using Cons.IH by blast
      then have "x # xs = (x # a) @ t @ b" by simp
      then show ?thesis by blast
    qed
  next
    assume "\<exists>a b. x # xs = a @ t @ b"
    then obtain a b where ab: "x # xs = a @ t @ b" by blast
    show "js_includes (x # xs) t"
    proof (cases a)
      case Nil
      with ab have "startsWith (x # xs) t" by (auto simp: startsWith_iff)
      then show ?thesis by simp
    next
      case (Cons y ys)
      with ab have "xs = ys @ t @ b" by simp
      then have "js_includes xs t" using Cons.IH by blast
      then show ?thesis by simp
    qed
  qed
qed

lemma trim_empty_iff: "trim s = [] \<longleftrightarrow> (\<forall>c \<in> set s. isWhiteSpace c)"
proof
  assume "trim s = []"
  then have d: "dropWhile isWhiteSpace (rev (dropWhile isWhiteSpace s)) = []"
    by (simp add: trim_def)
  show "\<forall>c \<in> set s. isWhiteSpace c"
  proof (rule ccontr)
    assume "\<not> (\<forall>c \<in> set s. isWhiteSpace c)"
    then have ne: "dropWhile isWhiteSpace s \<noteq> []" by (simp add: dropWhile_eq_Nil_conv)
    then have "\<not> isWhiteSpace (hd (dropWhile isWhiteSpace s))" by (rule hd_dropWhile)
    moreover have "hd (dropWhile isWhiteSpace s) \<in> set (rev (dropWhile isWhiteSpace s))"
      using ne by simp
    ultimately show False using d by (auto simp: dropWhile_eq_Nil_conv)
  qed
next
  assume "\<forall>c \<in> set s. isWhiteSpace c"
  then have e: "dropWhile isWhiteSpace s = []" by (simp add: dropWhile_eq_Nil_conv)
  show "trim s = []" unfolding trim_def e by simp
qed

section \<open>Pagination\<close>

text \<open>
  C7. For every page number, \<open>handlePageChange\<close> stores that number as the current page
  and changes no other cell of the component's state: putting the old page number back
  gives the old state, and in particular the sounds, the filtered sounds, the search
  term and the selection are the same.
\<close>

theorem handlePageChange_frame:
  "currentPage (handlePageChange n st) = n
   \<and> (handlePageChange n st)\<lparr>currentPage := currentPage st\<rparr> = st
   \<and> sounds (handlePageChange n st) = sounds st
   \<and> filteredSounds (handlePageChange n st) = filteredSounds st
   \<and> searchTerm (handlePageChange n st) = searchTerm st
   \<and> selectedSounds (handlePageChange n st) = selectedSounds st"
  by (simp add: handlePageChange_def)

section \<open>Searching\<close>

lemma sounds_applySearch [simp]: "sounds (applySearch term soundList st) = sounds st"
  by (simp add: applySearch_def)

text \<open>
  C3. \<open>applySearch\<close> filters by a case-insensitive substring match on the name: for every
  term and every list, when the term is empty or consists of white space only the
  filtered list is the whole list, unchanged; otherwise it consists of exactly the
  entries (in their order, with their multiplicity) whose lowercased name can be written
  as some text, then the lowercased term, then some text. No other cell of the state
  changes.
\<close>

theorem applySearch_substring_filter:
  "filteredSounds (applySearch term soundList st) =
     (if list_all isWhiteSpace term then soundList
      else filter (\<lambda>sound. \<exists>a b. toLowerCase (name sound) = a @ toLowerCase term @ b) soundList)
   \<and> (applySearch term soundList st)\<lparr>filteredSounds := filteredSounds st\<rparr> = st"
proof -
  have blank: "(term = [] \<or> trim term = []) \<longleftrightarrow> list_all isWhiteSpace term"
    by (auto simp: trim_empty_iff list_all_iff)
  show ?thesis
    unfolding applySearch_def blank by (simp add: js_includes_iff)
qed

lemma applySearch_example:
  "map name
     (filteredSounds
        (applySearch ''ELL''
           (map formatSound
              [\<lparr>api_id = ''1'', title = ''Bell'', api_description = [], api_category = [],
                api_isPremium = False, api_link = []\<rparr>,
               \<lparr>api_id = ''2'', title = ''Horn'', api_description = [], api_category = [],
                api_isPremium = False, api_link = []\<rparr>,
               \<lparr>api_id = ''3'', title = ''cello'', api_description = [], api_category = [],
                api_isPremium = True, api_link = []\<rparr>])
           \<lparr>sounds = [], filteredSounds = [], searchTerm = [], isLoading = False,
            currentlyPlayingId = None, selectedSounds = [], isAddModalOpen = False,
            isDeleteModalOpen = False, currentPage = 1, totalPages = 1,
            isShareModalOpen = False, shareData = None\<rparr>))
     = [''Bell'', ''cello'']"
  by code_simp

section \<open>Selecting sounds\<close>











section \<open>Signing up\<close>

subsection \<open>The email normalization\<close>

lemma toLowerChar_idem: "toLowerChar (toLowerChar c) = toLowerChar c"
  unfolding toLowerChar_def Let_def by auto

lemma toLowerChar_not_space: "\<not> isWhiteSpace c \<Longrightarrow> \<not> isWhiteSpace (toLowerChar c)"
  unfolding toLowerChar_def isWhiteSpace_def Let_def by auto

lemma replace_whitespace_toLowerCase:
  "replace_whitespace (toLowerCase (replace_whitespace s)) = toLowerCase (replace_whitespace s)"
  unfolding replace_whitespace_def toLowerCase_def
  by (induction s) (auto simp: toLowerChar_not_space)

lemma toLowerCase_idem: "toLowerCase (toLowerCase s) = toLowerCase s"
  by (simp add: toLowerCase_def toLowerChar_idem)

lemma normalizeEmail_idem: "normalizeEmail (normalizeEmail s) = normalizeEmail s"
  by (simp add: normalizeEmail_def replace_whitespace_toLowerCase toLowerCase_idem)

lemma signUpSchema_simplified_Inr:
  "signUpSchema_simplified isEmail v = Inr d \<longleftrightarrow>
     isEmail (email v) \<and> 6 \<le> length (password v) \<and> agreeToTerms v = JBool True
     \<and> d = v\<lparr>email := normalizeEmail (email v)\<rparr>"
  by (auto simp: signUpSchema_simplified_def Let_def)

lemma signUpCalls_onSubmit_simplified:
  "signUpCalls (onSubmit_simplified signUp data errs) = [data\<lparr>email := normalizeEmail (email data)\<rparr>]"
  by (simp add: onSubmit_simplified_def Let_def split: signup_outcome.splits option.splits)

text \<open>
  C10. The email normalization of the simplified schema (remove all white space, then
  lowercase) is idempotent: applied twice to any string it gives what it gives applied
  once. So when the schema accepts the values, the email of the parsed value is the
  normalized email, and \<open>onSubmit\<close>, which normalizes once more, calls \<open>signUp\<close> once
  with exactly the parsed value.
\<close>

theorem normalizeEmail_idempotent_submit:
  "normalizeEmail (normalizeEmail s) = normalizeEmail s
   \<and> (signUpSchema_simplified isEmail v = Inr data \<longrightarrow>
        email data = normalizeEmail (email v)
        \<and> signUpCalls (onSubmit_simplified signUp data errs) = [data]
        \<and> signUpCalls (handleSubmit_simplified isEmail signUp v) = [data])"
proof -
  have "email data = normalizeEmail (email v)
        \<and> signUpCalls (onSubmit_simplified signUp data errs) = [data]
        \<and> signUpCalls (handleSubmit_simplified isEmail signUp v) = [data]"
    if ok: "signUpSchema_simplified isEmail v = Inr data"
  proof -
    from ok have d: "data = v\<lparr>email := normalizeEmail (email v)\<rparr>"
      by (simp add: signUpSchema_simplified_Inr)
    then have e: "email data = normalizeEmail (email v)" by simp
    have "data\<lparr>email := normalizeEmail (email data)\<rparr> = data"
      unfolding e normalizeEmail_idem using e by simp
    then have c: "signUpCalls (onSubmit_simplified signUp data errs) = [data]" for errs
      by (simp add: signUpCalls_onSubmit_simplified)
    have "signUpCalls (handleSubmit_simplified isEmail signUp v) = [data]"
      by (simp add: handleSubmit_simplified_def ok c)
    with e c show ?thesis by simp
  qed
  then show ?thesis by (simp add: normalizeEmail_idem)
qed

theorem normalizeEmail_idempotent_submit_witness:
  "signUpSchema_simplified demo_isEmail demo_values
     = Inr (demo_values\<lparr>email := ''ada@example.org''\<rparr>)
   \<and> signUpCalls (handleSubmit_simplified demo_isEmail demo_signUp demo_values)
     = [demo_values\<lparr>email := ''ada@example.org''\<rparr>]
   \<and> normalizeEmail (normalizeEmail '' Ada @Example.ORG '') = ''ada@example.org''"
proof -
  have ok: "signUpSchema_simplified demo_isEmail demo_values
     = Inr (demo_values\<lparr>email := ''ada@example.org''\<rparr>)"
    by code_simp
  have n: "normalizeEmail '' Ada @Example.ORG '' = ''ada@example.org''"
    by code_simp
  note t = normalizeEmail_idempotent_submit
    [of "'' Ada @Example.ORG ''" demo_isEmail demo_values
        "demo_values\<lparr>email := ''ada@example.org''\<rparr>" demo_signUp Map.empty]
  from t ok have b: "signUpCalls (handleSubmit_simplified demo_isEmail demo_signUp demo_values)
     = [demo_values\<lparr>email := ''ada@example.org''\<rparr>]"
    by blast
  from t have "normalizeEmail (normalizeEmail '' Ada @Example.ORG '')
     = normalizeEmail '' Ada @Example.ORG ''"
    by (rule conjunct1)
  then have c: "normalizeEmail (normalizeEmail '' Ada @Example.ORG '') = ''ada@example.org''"
    unfolding n .
  from ok b c show ?thesis by blast
qed

subsection \<open>Errors of the backend\<close>

lemma fold_mapBackendError:
  "fold mapBackendError es errs f =
     (if f = ''phone''
      then (case find (\<lambda>e. path_includes (path e) ''phone'') (rev es) of
              None \<Rightarrow> errs f
            | Some e \<Rightarrow> Some (''manual'', message_or (message e) ''Invalid phone number format''))
      else errs f)"
  by (induction es rule: rev_induct) (auto simp: mapBackendError_def setError_def)

lemma fold_mapBackendError_simplified:
  "fold mapBackendError_simplified es errs f =
     (if f = ''email''
      then (case find (\<lambda>e. path_includes (path e) ''email'') (rev es) of
              None \<Rightarrow> errs f
            | Some e \<Rightarrow> Some (''manual'', message_or (message e) ''Invalid email format''))
      else if f = ''password''
      then (case find (\<lambda>e. path_includes (path e) ''password'') (rev es) of
              None \<Rightarrow> errs f
            | Some e \<Rightarrow> Some (''manual'', message_or (message e) ''Invalid password format''))
      else errs f)"
  by (induction es rule: rev_induct) (auto simp: mapBackendError_simplified_def setError_def Let_def)

text \<open>
  C5. When \<open>signUp\<close> rejects with a list of backend errors, the form's errors afterwards
  are these. In the version with the phone field: the field \<open>phone\<close> has the type
  \<open>manual\<close> and the message (or, when the message is absent or empty, "Invalid phone
  number format") of the last backend error whose path includes \<open>phone\<close>, and keeps
  its error when there is no such backend error; every other field keeps its error. In
  the simplified version the same holds for \<open>email\<close> ("Invalid email format") and
  \<open>password\<close> ("Invalid password format"). So backend errors whose paths include no
  such field leave the form's errors as they were.
\<close>

theorem backend_errors_mapped_to_fields:
  "(signUp data = Rejected (Some es) \<longrightarrow>
      formErrors (onSubmit signUp data errs) =
        (\<lambda>f. if f = ''phone''
             then (case find (\<lambda>e. path_includes (path e) ''phone'') (rev es) of
                     None \<Rightarrow> errs f
                   | Some e \<Rightarrow>
                       Some (''manual'', message_or (message e) ''Invalid phone number format''))
             else errs f)
      \<and> ((\<forall>e \<in> set es. \<not> path_includes (path e) ''phone'') \<longrightarrow>
           formErrors (onSubmit signUp data errs) = errs))
   \<and> (signUp' (data'\<lparr>email := normalizeEmail (email data')\<rparr>) = Rejected (Some es) \<longrightarrow>
      formErrors (onSubmit_simplified signUp' data' errs) =
        (\<lambda>f. if f = ''email''
             then (case find (\<lambda>e. path_includes (path e) ''email'') (rev es) of
                     None \<Rightarrow> errs f
                   | Some e \<Rightarrow> Some (''manual'', message_or (message e) ''Invalid email format''))
             else if f = ''password''
             then (case find (\<lambda>e. path_includes (path e) ''password'') (rev es) of
                     None \<Rightarrow> errs f
                   | Some e \<Rightarrow>
                       Some (''manual'', message_or (message e) ''Invalid password format''))
             else errs f)
      \<and> ((\<forall>e \<in> set es. \<not> path_includes (path e) ''email''
                        \<and> \<not> path_includes (path e) ''password'') \<longrightarrow>
           formErrors (onSubmit_simplified signUp' data' errs) = errs))"
proof -
  have none: "find P (rev es) = None" if "\<forall>e \<in> set es. \<not> P e" for P :: "backend_error \<Rightarrow> bool"
    using that by (simp add: find_None_iff)
  have full: "formErrors (onSubmit signUp data errs) = fold mapBackendError es errs"
    if "signUp data = Rejected (Some es)"
    using that by (simp add: onSubmit_def)
  have simpl: "formErrors (onSubmit_simplified signUp' data' errs)
      = fold mapBackendError_simplified es errs"
    if "signUp' (data'\<lparr>email := normalizeEmail (email data')\<rparr>) = Rejected (Some es)"
    using that by (simp add: onSubmit_simplified_def Let_def)
  show ?thesis
  proof (intro conjI impI)
    assume r: "signUp data = Rejected (Some es)"
    show "formErrors (onSubmit signUp data errs) =
        (\<lambda>f. if f = ''phone''
             then (case find (\<lambda>e. path_includes (path e) ''phone'') (rev es) of
                     None \<Rightarrow> errs f
                   | Some e \<Rightarrow>
                       Some (''manual'', message_or (message e) ''Invalid phone number format''))
             else errs f)"
      unfolding full [OF r] by (rule ext) (rule fold_mapBackendError)
    assume "\<forall>e \<in> set es. \<not> path_includes (path e) ''phone''"
    then have "find (\<lambda>e. path_includes (path e) ''phone'') (rev es) = None" by (rule none)
    then show "formErrors (onSubmit signUp data errs) = errs"
      unfolding full [OF r] by (intro ext) (simp add: fold_mapBackendError)
  next
    assume r: "signUp' (data'\<lparr>email := normalizeEmail (email data')\<rparr>) = Rejected (Some es)"
    show "formErrors (onSubmit_simplified signUp' data' errs) =
        (\<lambda>f. if f = ''email''
             then (case find (\<lambda>e. path_includes (path e) ''email'') (rev es) of
                     None \<Rightarrow> errs f
                   | Some e \<Rightarrow> Some (''manual'', message_or (message e) ''Invalid email format''))
             else if f = ''password''
             then (case find (\<lambda>e. path_includes (path e) ''password'') (rev es) of
                     None \<Rightarrow> errs f
                   | Some e \<Rightarrow>
                       Some (''manual'', message_or (message e) ''Invalid password format''))
             else errs f)"
      unfolding simpl [OF r] by (rule ext) (rule fold_mapBackendError_simplified)
    assume "\<forall>e \<in> set es. \<not> path_includes (path e) ''email''
                        \<and> \<not> path_includes (path e) ''password''"
    then have "find (\<lambda>e. path_includes (path e) ''email'') (rev es) = None"
      and "find (\<lambda>e. path_includes (path e) ''password'') (rev es) = None"
      by (simp_all add: find_None_iff)
    then show "formErrors (onSubmit_simplified signUp' data' errs) = errs"
      unfolding simpl [OF r] by (intro ext) (simp add: fold_mapBackendError_simplified)
  qed
qed

theorem backend_errors_mapped_to_fields_witness:
  "formErrors (onSubmit demo_signUp demo_values_full Map.empty) ''phone''
     = Some (''manual'', ''Invalid phone number format'')
   \<and> formErrors (onSubmit demo_signUp demo_values_full Map.empty) ''email'' = None
   \<and> formErrors (onSubmit_simplified demo_signUp demo_values Map.empty) ''email''
     = Some (''manual'', ''Email already exists'')
   \<and> formErrors (onSubmit_simplified demo_signUp demo_values Map.empty) ''password'' = None
   \<and> formErrors (onSubmit demo_signUp_other demo_values_full Map.empty) = Map.empty
   \<and> formErrors (onSubmit_simplified demo_signUp_other demo_values Map.empty) = Map.empty"
proof -
  note t1 = backend_errors_mapped_to_fields
    [of demo_signUp demo_values_full demo_backend_errors Map.empty demo_signUp demo_values]
  note t2 = backend_errors_mapped_to_fields
    [of demo_signUp_other demo_values_full
        "[\<lparr>path = Some (PathString ''body.fullName''), message = Some ''Too short''\<rparr>]"
        Map.empty demo_signUp_other demo_values]
  have r1: "demo_signUp demo_values_full = Rejected (Some demo_backend_errors)"
    and r2: "demo_signUp (demo_values\<lparr>email := normalizeEmail (email demo_values)\<rparr>)
              = Rejected (Some demo_backend_errors)"
    by (simp_all add: demo_signUp_def)
  have r3: "demo_signUp_other demo_values_full
              = Rejected (Some [\<lparr>path = Some (PathString ''body.fullName''), message = Some ''Too short''\<rparr>])"
    and r4: "demo_signUp_other (demo_values\<lparr>email := normalizeEmail (email demo_values)\<rparr>)
              = Rejected (Some [\<lparr>path = Some (PathString ''body.fullName''), message = Some ''Too short''\<rparr>])"
    by (simp_all add: demo_signUp_other_def)
  have n3: "\<forall>e \<in> set [\<lparr>path = Some (PathString ''body.fullName''), message = Some ''Too short''\<rparr>].
              \<not> path_includes (path e) ''phone''"
    and n4: "\<forall>e \<in> set [\<lparr>path = Some (PathString ''body.fullName''), message = Some ''Too short''\<rparr>].
              \<not> path_includes (path e) ''email'' \<and> \<not> path_includes (path e) ''password''"
    by (simp_all add: path_includes_def)
  from t1 r1 have f: "formErrors (onSubmit demo_signUp demo_values_full Map.empty) =
        (\<lambda>f. if f = ''phone''
             then (case find (\<lambda>e. path_includes (path e) ''phone'') (rev demo_backend_errors) of
                     None \<Rightarrow> None
                   | Some e \<Rightarrow>
                       Some (''manual'', message_or (message e) ''Invalid phone number format''))
             else None)"
    by blast
  from t1 r2 have s: "formErrors (onSubmit_simplified demo_signUp demo_values Map.empty) =
        (\<lambda>f. if f = ''email''
             then (case find (\<lambda>e. path_includes (path e) ''email'') (rev demo_backend_errors) of
                     None \<Rightarrow> None
                   | Some e \<Rightarrow> Some (''manual'', message_or (message e) ''Invalid email format''))
             else if f = ''password''
             then (case find (\<lambda>e. path_includes (path e) ''password'') (rev demo_backend_errors) of
                     None \<Rightarrow> None
                   | Some e \<Rightarrow>
                       Some (''manual'', message_or (message e) ''Invalid password format''))
             else None)"
    by blast
  from t2 r3 n3 have o1: "formErrors (onSubmit demo_signUp_other demo_values_full Map.empty) = Map.empty"
    by blast
  from t2 r4 n4 have o2: "formErrors (onSubmit_simplified demo_signUp_other demo_values Map.empty) = Map.empty"
    by blast
  have a: "formErrors (onSubmit demo_signUp demo_values_full Map.empty) ''phone''
     = Some (''manual'', ''Invalid phone number format'')"
    unfolding f by (simp add: demo_backend_errors_def path_includes_def message_or_def)
  have b: "formErrors (onSubmit demo_signUp demo_values_full Map.empty) ''email'' = None"
    unfolding f by simp
  have c: "formErrors (onSubmit_simplified demo_signUp demo_values Map.empty) ''email''
     = Some (''manual'', ''Email already exists'')"
    unfolding s by (simp add: demo_backend_errors_def path_includes_def message_or_def)
  have d: "formErrors (onSubmit_simplified demo_signUp demo_values Map.empty) ''password'' = None"
    unfolding s by (simp add: demo_backend_errors_def path_includes_def message_or_def)
  from a b c d o1 o2 show ?thesis by blast
qed

subsection \<open>Validation\<close>

lemma signUpSchema_accepted:
  "accepted (signUpSchema isValidPhoneNumber isEmail v) \<longleftrightarrow>
     2 \<le> length (fullName v) \<and> 1 \<le> length (phone v) \<and> isValidPhoneNumber (phone v)
     \<and> isEmail (email v) \<and> 6 \<le> length (password v) \<and> agreeToTerms v = JBool True"
  by (auto simp: signUpSchema_def accepted_def Let_def Suc_le_eq)

lemma signUpSchema_simplified_accepted:
  "accepted (signUpSchema_simplified isEmail v) \<longleftrightarrow>
     isEmail (email v) \<and> 6 \<le> length (password v) \<and> agreeToTerms v = JBool True"
  by (auto simp: signUpSchema_simplified_def accepted_def Let_def)

lemma handleSubmit_errors:
  "\<not> isEmail (email v) \<Longrightarrow>
     formErrors (handleSubmit isValidPhoneNumber isEmail signUp v) ''email''
       = Some (''invalid_string'', ''Invalid email address'')"
  "length (password v) < 6 \<Longrightarrow>
     formErrors (handleSubmit isValidPhoneNumber isEmail signUp v) ''password''
       = Some (''too_small'', ''Password must be at least 6 characters'')"
  "agreeToTerms v \<noteq> JBool True \<Longrightarrow>
     formErrors (handleSubmit isValidPhoneNumber isEmail signUp v) ''agreeToTerms''
       = Some (''invalid_literal'', ''You must agree to the terms'')"
  by (simp_all add: handleSubmit_def signUpSchema_def zodResolver_def Let_def)

lemma handleSubmit_simplified_errors:
  "\<not> isEmail (email u) \<Longrightarrow>
     formErrors (handleSubmit_simplified isEmail signUp u) ''email''
       = Some (''invalid_string'', ''Invalid email address'')"
  "length (password u) < 6 \<Longrightarrow>
     formErrors (handleSubmit_simplified isEmail signUp u) ''password''
       = Some (''too_small'', ''Password must be at least 6 characters'')"
  "agreeToTerms u \<noteq> JBool True \<Longrightarrow>
     formErrors (handleSubmit_simplified isEmail signUp u) ''agreeToTerms''
       = Some (''invalid_literal'', ''You must agree to the terms'')"
  by (simp_all add: handleSubmit_simplified_def signUpSchema_simplified_def zodResolver_def Let_def)

lemma handleSubmit_no_call:
  "\<not> accepted (signUpSchema isValidPhoneNumber isEmail v) \<Longrightarrow>
     signUpCalls (handleSubmit isValidPhoneNumber isEmail signUp v) = []"
  by (auto simp: handleSubmit_def accepted_def split: sum.splits)

lemma handleSubmit_simplified_no_call:
  "\<not> accepted (signUpSchema_simplified isEmail u) \<Longrightarrow>
     signUpCalls (handleSubmit_simplified isEmail signUp u) = []"
  by (auto simp: handleSubmit_simplified_def accepted_def split: sum.splits)

text \<open>
  C2, as the two schemas have it. The simplified schema accepts the values exactly when
  the email passes the email check, the password has at least 6 characters and the
  terms field is the literal \<open>true\<close>. The schema with name and phone number accepts
  exactly when, besides these three, the full name has at least 2 characters and the
  phone number is not empty and passes the phone check. With either schema, values
  that fail the email, the password or the terms check get that field's message
  ("Invalid email address", "Password must be at least 6 characters", "You must agree
  to the terms") as the field's error, and \<open>signUp\<close> is not called.
\<close>

theorem signUp_validation:
  "(accepted (signUpSchema_simplified isEmail u) \<longleftrightarrow>
      isEmail (email u) \<and> 6 \<le> length (password u) \<and> agreeToTerms u = JBool True)
   \<and> (accepted (signUpSchema isValidPhoneNumber isEmail v) \<longleftrightarrow>
      2 \<le> length (fullName v) \<and> 1 \<le> length (phone v) \<and> isValidPhoneNumber (phone v)
      \<and> isEmail (email v) \<and> 6 \<le> length (password v) \<and> agreeToTerms v = JBool True)
   \<and> (\<not> isEmail (email u) \<longrightarrow>
        formErrors (handleSubmit_simplified isEmail signUp' u) ''email''
          = Some (''invalid_string'', ''Invalid email address'')
        \<and> signUpCalls (handleSubmit_simplified isEmail signUp' u) = [])
   \<and> (length (password u) < 6 \<longrightarrow>
        formErrors (handleSubmit_simplified isEmail signUp' u) ''password''
          = Some (''too_small'', ''Password must be at least 6 characters'')
        \<and> signUpCalls (handleSubmit_simplified isEmail signUp' u) = [])
   \<and> (agreeToTerms u \<noteq> JBool True \<longrightarrow>
        formErrors (handleSubmit_simplified isEmail signUp' u) ''agreeToTerms''
          = Some (''invalid_literal'', ''You must agree to the terms'')
        \<and> signUpCalls (handleSubmit_simplified isEmail signUp' u) = [])
   \<and> (\<not> isEmail (email v) \<longrightarrow>
        formErrors (handleSubmit isValidPhoneNumber isEmail signUp v) ''email''
          = Some (''invalid_string'', ''Invalid email address'')
        \<and> signUpCalls (handleSubmit isValidPhoneNumber isEmail signUp v) = [])
   \<and> (length (password v) < 6 \<longrightarrow>
        formErrors (handleSubmit isValidPhoneNumber isEmail signUp v) ''password''
          = Some (''too_small'', ''Password must be at least 6 characters'')
        \<and> signUpCalls (handleSubmit isValidPhoneNumber isEmail signUp v) = [])
   \<and> (agreeToTerms v \<noteq> JBool True \<longrightarrow>
        formErrors (handleSubmit isValidPhoneNumber isEmail signUp v) ''agreeToTerms''
          = Some (''invalid_literal'', ''You must agree to the terms'')
        \<and> signUpCalls (handleSubmit isValidPhoneNumber isEmail signUp v) = [])"
proof -
  have n1: "signUpCalls (handleSubmit_simplified isEmail signUp' u) = []"
    if "\<not> isEmail (email u) \<or> length (password u) < 6 \<or> agreeToTerms u \<noteq> JBool True"
  proof -
    from that have "\<not> accepted (signUpSchema_simplified isEmail u)"
      unfolding signUpSchema_simplified_accepted by auto
    then show ?thesis by (rule handleSubmit_simplified_no_call)
  qed
  have n2: "signUpCalls (handleSubmit isValidPhoneNumber isEmail signUp v) = []"
    if "\<not> isEmail (email v) \<or> length (password v) < 6 \<or> agreeToTerms v \<noteq> JBool True"
  proof -
    from that have "\<not> accepted (signUpSchema isValidPhoneNumber isEmail v)"
      unfolding signUpSchema_accepted by auto
    then show ?thesis by (rule handleSubmit_no_call)
  qed
  show ?thesis
    using n1 n2 signUpSchema_simplified_accepted [of isEmail u]
      signUpSchema_accepted [of isValidPhoneNumber isEmail v]
      handleSubmit_errors [where isEmail = isEmail and v = v
        and isValidPhoneNumber = isValidPhoneNumber and signUp = signUp]
      handleSubmit_simplified_errors [where isEmail = isEmail and u = u and signUp = signUp']
    by blast
qed

theorem signUp_validation_witness:
  "formErrors (handleSubmit_simplified demo_isEmail demo_signUp (signup_values.truncate demo_values_bad))
       ''email'' = Some (''invalid_string'', ''Invalid email address'')
   \<and> formErrors (handleSubmit demo_isValidPhoneNumber demo_isEmail demo_signUp demo_values_bad)
       ''password'' = Some (''too_small'', ''Password must be at least 6 characters'')
   \<and> formErrors (handleSubmit demo_isValidPhoneNumber demo_isEmail demo_signUp demo_values_bad)
       ''agreeToTerms'' = Some (''invalid_literal'', ''You must agree to the terms'')
   \<and> signUpCalls (handleSubmit demo_isValidPhoneNumber demo_isEmail demo_signUp demo_values_bad) = []
   \<and> signUpCalls
        (handleSubmit_simplified demo_isEmail demo_signUp (signup_values.truncate demo_values_bad)) = []
   \<and> accepted (signUpSchema demo_isValidPhoneNumber demo_isEmail demo_values_full)
   \<and> accepted (signUpSchema_simplified demo_isEmail demo_values)"
proof -
  note t = signUp_validation
    [of demo_isEmail "signup_values.truncate demo_values_bad" demo_isValidPhoneNumber
        demo_values_bad demo_signUp demo_signUp]
  note t' = signUp_validation
    [of demo_isEmail demo_values demo_isValidPhoneNumber demo_values_full demo_signUp demo_signUp]
  have bad: "\<not> demo_isEmail (email demo_values_bad)" "length (password demo_values_bad) < 6"
    "agreeToTerms demo_values_bad \<noteq> JBool True"
    "\<not> demo_isEmail (email (signup_values.truncate demo_values_bad))"
    "length (password (signup_values.truncate demo_values_bad)) < 6"
    "agreeToTerms (signup_values.truncate demo_values_bad) \<noteq> JBool True"
    by (simp_all add: demo_values_bad_def demo_isEmail_def signup_values.truncate_def)
  have good: "2 \<le> length (fullName demo_values_full)" "1 \<le> length (phone demo_values_full)"
    "demo_isValidPhoneNumber (phone demo_values_full)" "demo_isEmail (email demo_values_full)"
    "6 \<le> length (password demo_values_full)" "agreeToTerms demo_values_full = JBool True"
    "demo_isEmail (email demo_values)" "6 \<le> length (password demo_values)"
    "agreeToTerms demo_values = JBool True"
    by (simp_all add: demo_values_full_def demo_values_def demo_isEmail_def
        demo_isValidPhoneNumber_def isWhiteSpace_def)
  from t bad t' good show ?thesis by blast
qed

theorem signUp_validation_counterexample:
  "\<not> (accepted (signUpSchema demo_isValidPhoneNumber demo_isEmail (demo_values_full\<lparr>fullName := []\<rparr>))
        \<longleftrightarrow> demo_isEmail (email (demo_values_full\<lparr>fullName := []\<rparr>))
             \<and> 6 \<le> length (password (demo_values_full\<lparr>fullName := []\<rparr>))
             \<and> agreeToTerms (demo_values_full\<lparr>fullName := []\<rparr>) = JBool True)"
  by (simp add: signUpSchema_def accepted_def demo_values_full_def demo_isEmail_def isWhiteSpace_def)

section \<open>Formatting a duration\<close>

declare digits.simps [simp del]


lemma of_char_digit: "d < 10 \<Longrightarrow> (of_char (char_of (48 + d) :: char) :: nat) = 48 + d"
  by simp




















section \<open>The user listing request\<close>












lemma getAllUsers_url_examples:
  "getAllUsers_url \<lparr>search = JString ''a b&c'', page = JNumber 2, limit = JUndefined\<rparr>
     = ''/user/get-all-user?search=a+b%26c&page=2''"
  "getAllUsers_url \<lparr>search = JString [], page = JUndefined, limit = JUndefined\<rparr>
     = ''/user/get-all-user''"
  by code_simp+

section \<open>Toasts on failed network calls\<close>





end
